theory Spec2Isabelle
  imports Main
begin

section \<open>The shared cache\<close>

text \<open>
  The classes of \<^verbatim>\<open>celery_tools/concurrency.py\<close> keep no state of their own: every
  method reads and writes the Django cache under the object's key.  The cache is a
  collaborator outside the repository; it is modelled as a finite map from keys to the
  integers these classes store in it, with the behaviour Django documents for each call:
  \<^verbatim>\<open>get\<close> returns the default for a missing key, \<^verbatim>\<open>add\<close> writes only a missing key,
  \<^verbatim>\<open>set\<close> overwrites, \<^verbatim>\<open>delete\<close> removes, and \<^verbatim>\<open>incr\<close>/\<^verbatim>\<open>decr\<close> raise
  \<^verbatim>\<open>ValueError\<close> for a missing key.  A timeout is \<^verbatim>\<open>None\<close> (the entry never
  expires) or a number of seconds.  Django does not cache a value written with a timeout
  of 0, and a negative timeout lies in the past as well: such an entry has expired by the
  time the call returns, so the key is missing afterwards.  An entry written with a
  positive timeout stays until it is deleted: the passage of time is outside the model.
\<close>

type_synonym cache = "string \<rightharpoonup> int"

datatype exn = ValueError string | OtherError string

definition cache_get :: "string \<Rightarrow> int \<Rightarrow> cache \<Rightarrow> int" where
  "cache_get key dflt c = (case c key of None \<Rightarrow> dflt | Some v \<Rightarrow> v)"

definition expires_at_once :: "int option \<Rightarrow> bool" where
  "expires_at_once tmo = (case tmo of None \<Rightarrow> False | Some t \<Rightarrow> t \<le> 0)"

definition cache_add :: "string \<Rightarrow> int \<Rightarrow> int option \<Rightarrow> cache \<Rightarrow> bool \<times> cache" where
  "cache_add key v tmo c =
     (if c key = None
      then (True, if expires_at_once tmo then c else c(key \<mapsto> v))
      else (False, c))"

definition cache_set :: "string \<Rightarrow> int \<Rightarrow> int option \<Rightarrow> cache \<Rightarrow> cache" where
  "cache_set key v tmo c = (if expires_at_once tmo then c(key := None) else c(key \<mapsto> v))"

definition cache_delete :: "string \<Rightarrow> cache \<Rightarrow> cache" where
  "cache_delete key c = c(key := None)"

definition cache_incr :: "string \<Rightarrow> int \<Rightarrow> cache \<Rightarrow> (exn + int) \<times> cache" where
  "cache_incr key delta c =
     (case c key of
        None \<Rightarrow> (Inl (ValueError ''Key not found''), c)
      | Some v \<Rightarrow> (Inr (v + delta), c(key \<mapsto> v + delta)))"

definition cache_decr :: "string \<Rightarrow> int \<Rightarrow> cache \<Rightarrow> (exn + int) \<times> cache" where
  "cache_decr key delta c = cache_incr key (- delta) c"


section \<open>CacheLock\<close>

record CacheLock =
  lock_key :: string
  timeout :: "int option"

definition CacheLock_init :: "string \<Rightarrow> int option \<Rightarrow> CacheLock" where
  "CacheLock_init key tmo = \<lparr>lock_key = key, timeout = tmo\<rparr>"

definition CacheLock_locked :: "CacheLock \<Rightarrow> cache \<Rightarrow> bool" where
  "CacheLock_locked l c = (cache_get (lock_key l) 0 c = 1)"

definition CacheLock_acquire :: "CacheLock \<Rightarrow> cache \<Rightarrow> bool \<times> cache" where
  "CacheLock_acquire l c =
     (if \<not> CacheLock_locked l c
      then (True, snd (cache_add (lock_key l) 1 (timeout l) c))
      else (False, c))"

definition CacheLock_release :: "CacheLock \<Rightarrow> cache \<Rightarrow> cache" where
  "CacheLock_release l c = cache_delete (lock_key l) c"

definition CacheLock_del :: "CacheLock \<Rightarrow> cache \<Rightarrow> cache" where
  "CacheLock_del l c = CacheLock_release l c"


section \<open>CacheSemaphore\<close>

text \<open>
  The constructor tests \<^verbatim>\<open>not cache.get(key, False)\<close>.  Python's \<^verbatim>\<open>False\<close> is the
  integer 0 and \<^verbatim>\<open>not v\<close> holds of an integer exactly when it is 0, so the test is
  \<open>cache_get key 0 c = 0\<close>.  A method that raises returns \<open>Inl\<close> of the exception
  together with the cache as it is at that moment.
\<close>

record CacheSemaphore =
  cache_key :: string

definition CacheSemaphore_init :: "string \<Rightarrow> int \<Rightarrow> cache \<Rightarrow> CacheSemaphore \<times> cache" where
  "CacheSemaphore_init key v c =
     (\<lparr>cache_key = key\<rparr>,
      if cache_get key 0 c = 0 then cache_set key v None c else c)"

definition CacheSemaphore_value :: "'a CacheSemaphore_scheme \<Rightarrow> cache \<Rightarrow> int" where
  "CacheSemaphore_value sem c = cache_get (cache_key sem) 0 c"

definition CacheSemaphore_acquire ::
  "'a CacheSemaphore_scheme \<Rightarrow> int \<Rightarrow> cache \<Rightarrow> (exn + bool) \<times> cache" where
  "CacheSemaphore_acquire sem units c =
     (let current_value = CacheSemaphore_value sem c in
      if current_value < 1 \<or> current_value < units
      then (Inl (ValueError ''Semaphore cannot be acquired''), c)
      else (case cache_decr (cache_key sem) units c of
              (Inl e, c') \<Rightarrow> (Inl e, c')
            | (Inr _, c') \<Rightarrow> (Inr True, c')))"

definition CacheSemaphore_acquire_all ::
  "'a CacheSemaphore_scheme \<Rightarrow> cache \<Rightarrow> (exn + int) \<times> cache" where
  "CacheSemaphore_acquire_all sem c =
     (let v = CacheSemaphore_value sem c in
      case CacheSemaphore_acquire sem v c of
        (Inl e, c') \<Rightarrow> (Inl e, c')
      | (Inr _, c') \<Rightarrow> (Inr v, c'))"

definition CacheSemaphore_locked :: "'a CacheSemaphore_scheme \<Rightarrow> cache \<Rightarrow> bool" where
  "CacheSemaphore_locked sem c = (CacheSemaphore_value sem c < 1)"

definition CacheSemaphore_release ::
  "'a CacheSemaphore_scheme \<Rightarrow> int \<Rightarrow> cache \<Rightarrow> (exn + unit) \<times> cache" where
  "CacheSemaphore_release sem units c =
     (case cache_incr (cache_key sem) units c of
        (Inl e, c') \<Rightarrow> (Inl e, c')
      | (Inr _, c') \<Rightarrow> (Inr (), c'))"

definition CacheSemaphore_delete :: "'a CacheSemaphore_scheme \<Rightarrow> cache \<Rightarrow> cache" where
  "CacheSemaphore_delete sem c = cache_delete (cache_key sem) c"

definition CacheSemaphore_del :: "'a CacheSemaphore_scheme \<Rightarrow> cache \<Rightarrow> cache" where
  "CacheSemaphore_del sem c = CacheSemaphore_delete sem c"


section \<open>CacheBoundedSemaphore\<close>

text \<open>
  The subclass adds one field and inherits \<^verbatim>\<open>acquire\<close>, \<^verbatim>\<open>acquire_all\<close>,
  \<^verbatim>\<open>value\<close>, \<^verbatim>\<open>locked\<close> and \<^verbatim>\<open>delete\<close>; it overrides \<^verbatim>\<open>release\<close> and
  \<^verbatim>\<open>__del__\<close> and adds \<^verbatim>\<open>full\<close> and \<^verbatim>\<open>release_all\<close>.
\<close>

record CacheBoundedSemaphore = CacheSemaphore +
  max_value :: int

definition CacheBoundedSemaphore_init ::
  "string \<Rightarrow> int \<Rightarrow> int option \<Rightarrow> cache \<Rightarrow> (exn + CacheBoundedSemaphore) \<times> cache" where
  "CacheBoundedSemaphore_init key v mx c =
     (let (base, c1) = CacheSemaphore_init key v c;
          m = (case mx of None \<Rightarrow> v | Some m' \<Rightarrow> m')
      in if v > m
         then (Inl (ValueError ''Initial value cannot be greater than max value''), c1)
         else (Inr \<lparr>cache_key = cache_key base, max_value = m\<rparr>, c1))"

definition CacheBoundedSemaphore_full :: "CacheBoundedSemaphore \<Rightarrow> cache \<Rightarrow> bool" where
  "CacheBoundedSemaphore_full sem c =
     (cache_get (cache_key sem) (max_value sem) c \<ge> max_value sem)"

definition CacheBoundedSemaphore_release ::
  "CacheBoundedSemaphore \<Rightarrow> int \<Rightarrow> cache \<Rightarrow> (exn + unit) \<times> cache" where
  "CacheBoundedSemaphore_release sem units c =
     (let current_value = CacheSemaphore_value sem c;
          units' = (if units > max_value sem - current_value
                    then max_value sem - current_value else units)
      in case cache_incr (cache_key sem) units' c of
           (Inl e, c') \<Rightarrow> (Inl e, c')
         | (Inr _, c') \<Rightarrow> (Inr (), c'))"

definition CacheBoundedSemaphore_release_all ::
  "CacheBoundedSemaphore \<Rightarrow> cache \<Rightarrow> (exn + unit) \<times> cache" where
  "CacheBoundedSemaphore_release_all sem c =
     CacheBoundedSemaphore_release sem (max_value sem - CacheSemaphore_value sem c) c"

definition CacheBoundedSemaphore_del :: "CacheBoundedSemaphore \<Rightarrow> cache \<Rightarrow> cache" where
  "CacheBoundedSemaphore_del sem c = CacheSemaphore_del sem c"


section \<open>Logged tasks\<close>

text \<open>
  \<^verbatim>\<open>celery_tools/base_tasks.py\<close>.  A task's \<^verbatim>\<open>run\<close> is the wrapped work: it may
  read and write the cache, and it returns a Python value or raises.  What a task does
  besides changing the cache (a log line, the call of \<^verbatim>\<open>run\<close>, a call on its lock,
  the hook of the base class) is recorded as an event, in order, so that a property
  such as "the work was not executed" or "release was invoked twice" is a property of
  the list of events.
\<close>

datatype pyval = PNone | PBool bool | PInt int | PStr string

datatype event =
    LogStarted string
  | LogCompleted string string pyval
  | LogFailed string string exn
  | RunCalled
  | LockAcquire bool
  | LockRelease
  | TaskOnSuccess
  | TaskOnFailure

record world =
  store :: cache
  events :: "event list"

definition emit :: "event \<Rightarrow> world \<Rightarrow> world" where
  "emit e w = w\<lparr>events := events w @ [e]\<rparr>"

record LoggedTask =
  TAG :: string
  run :: "cache \<Rightarrow> (exn + pyval) \<times> cache"

record LoggedSingleTask = LoggedTask +
  lock :: CacheLock

text \<open>
  The base class \<^verbatim>\<open>celery.Task\<close> is not part of the repository.  Its
  \<^verbatim>\<open>__call__\<close> calls \<^verbatim>\<open>self.run\<close> and returns what it returns; its
  \<^verbatim>\<open>on_success\<close> and \<^verbatim>\<open>on_failure\<close> are the generic hooks, which do nothing to
  the cache.
\<close>

definition Task_call :: "'a LoggedTask_scheme \<Rightarrow> world \<Rightarrow> (exn + pyval) \<times> world" where
  "Task_call t w =
     (case run t (store w) of
        (r, c') \<Rightarrow> (r, (emit RunCalled w)\<lparr>store := c'\<rparr>))"

definition Task_on_success :: "world \<Rightarrow> world" where
  "Task_on_success w = emit TaskOnSuccess w"

definition Task_on_failure :: "world \<Rightarrow> world" where
  "Task_on_failure w = emit TaskOnFailure w"

definition LoggedTask_call :: "'a LoggedTask_scheme \<Rightarrow> world \<Rightarrow> (exn + pyval) \<times> world" where
  "LoggedTask_call t w = Task_call t (emit (LogStarted (TAG t)) w)"

definition LoggedTask_on_success ::
  "'a LoggedTask_scheme \<Rightarrow> pyval \<Rightarrow> string \<Rightarrow> world \<Rightarrow> world" where
  "LoggedTask_on_success t retval task_id w =
     Task_on_success (emit (LogCompleted (TAG t) task_id retval) w)"

definition LoggedTask_on_failure ::
  "'a LoggedTask_scheme \<Rightarrow> exn \<Rightarrow> string \<Rightarrow> world \<Rightarrow> world" where
  "LoggedTask_on_failure t exc task_id w =
     Task_on_failure (emit (LogFailed (TAG t) task_id exc) w)"

text \<open>\<^verbatim>\<open>str.lower\<close>, on the ASCII letters a tag is written in.\<close>

definition lower_char :: "char \<Rightarrow> char" where
  "lower_char ch =
     (let n = (of_char ch :: nat) in if 65 \<le> n \<and> n \<le> 90 then char_of (n + 32) else ch)"

definition lower :: "string \<Rightarrow> string" where
  "lower s = map lower_char s"

definition LoggedSingleTask_init ::
  "string \<Rightarrow> (cache \<Rightarrow> (exn + pyval) \<times> cache) \<Rightarrow> LoggedSingleTask" where
  "LoggedSingleTask_init tag work =
     \<lparr>TAG = tag, run = work, lock = CacheLock_init (''lock_'' @ lower tag) None\<rparr>"

text \<open>\<^verbatim>\<open>self.lock.acquire()\<close> and \<^verbatim>\<open>self.lock.release()\<close>, with the call recorded.\<close>

definition lock_acquire :: "CacheLock \<Rightarrow> world \<Rightarrow> bool \<times> world" where
  "lock_acquire l w =
     (case CacheLock_acquire l (store w) of
        (ok, c') \<Rightarrow> (ok, (emit (LockAcquire ok) w)\<lparr>store := c'\<rparr>))"

definition lock_release :: "CacheLock \<Rightarrow> world \<Rightarrow> world" where
  "lock_release l w = (emit LockRelease w)\<lparr>store := CacheLock_release l (store w)\<rparr>"

text \<open>
  \<^verbatim>\<open>LoggedSingleTask.__call__\<close>: when the work raises, the exception leaves
  \<^verbatim>\<open>__call__\<close> before the line that releases the lock.
\<close>

definition LoggedSingleTask_call :: "LoggedSingleTask \<Rightarrow> world \<Rightarrow> (exn + pyval) \<times> world" where
  "LoggedSingleTask_call t w =
     (case lock_acquire (lock t) w of
        (True, w1) \<Rightarrow>
          (case LoggedTask_call t w1 of
             (Inl exc, w2) \<Rightarrow> (Inl exc, w2)
           | (Inr result, w2) \<Rightarrow> (Inr result, lock_release (lock t) w2))
      | (False, w1) \<Rightarrow> (Inr (PBool False), w1))"

definition LoggedSingleTask_on_success ::
  "LoggedSingleTask \<Rightarrow> pyval \<Rightarrow> string \<Rightarrow> world \<Rightarrow> world" where
  "LoggedSingleTask_on_success t retval task_id w =
     LoggedTask_on_success t retval task_id (lock_release (lock t) w)"

definition LoggedSingleTask_on_failure ::
  "LoggedSingleTask \<Rightarrow> exn \<Rightarrow> string \<Rightarrow> world \<Rightarrow> world" where
  "LoggedSingleTask_on_failure t exc task_id w =
     LoggedTask_on_failure t exc task_id (lock_release (lock t) w)"

text \<open>
  Modelled from the spec: the worker that runs one job instance (section 4.4, the state
  machine Created, Started, then Succeeded or Failed).  It is Celery's task tracer, which
  is not among the repository's files: it invokes the task and, when the call returns a
  value, reports success and calls \<^verbatim>\<open>on_success\<close> with that value; when the call
  raises, it reports failure and calls \<^verbatim>\<open>on_failure\<close> with the exception.
\<close>

datatype outcome = SUCCESS pyval | FAILURE exn

definition trace_task :: "LoggedSingleTask \<Rightarrow> string \<Rightarrow> world \<Rightarrow> outcome \<times> world" where
  "trace_task t task_id w =
     (case LoggedSingleTask_call t w of
        (Inr retval, w1) \<Rightarrow> (SUCCESS retval, LoggedSingleTask_on_success t retval task_id w1)
      | (Inl exc, w1) \<Rightarrow> (FAILURE exc, LoggedSingleTask_on_failure t exc task_id w1))"

text \<open>Wrapped work that leaves the cache alone and returns the given value.\<close>

definition returning :: "pyval \<Rightarrow> cache \<Rightarrow> (exn + pyval) \<times> cache" where
  "returning v c = (Inr v, c)"


section \<open>Properties of CacheLock\<close>

text \<open>
  C1, as the code has it.  \<^verbatim>\<open>acquire()\<close> hands the lock's timeout to
  \<^verbatim>\<open>cache.add\<close>, so the marker stays in the cache only when the timeout is
  \<^verbatim>\<open>None\<close> or positive.  For such a lock whose key is absent from the cache, the
  first \<^verbatim>\<open>acquire()\<close> returns true and leaves the lock held; a second
  \<^verbatim>\<open>acquire()\<close> before any release returns false and leaves the cache as it was;
  after \<^verbatim>\<open>release()\<close> the next \<^verbatim>\<open>acquire()\<close> returns true again and the lock
  is held once more.
\<close>

theorem CacheLock_acquire_release_cycle:
  assumes "c (lock_key l) = None"
      and "\<not> expires_at_once (timeout l)"
  shows "fst (CacheLock_acquire l c) = True
       \<and> CacheLock_locked l (snd (CacheLock_acquire l c))
       \<and> fst (CacheLock_acquire l (snd (CacheLock_acquire l c))) = False
       \<and> snd (CacheLock_acquire l (snd (CacheLock_acquire l c))) = snd (CacheLock_acquire l c)
       \<and> fst (CacheLock_acquire l
                (CacheLock_release l (snd (CacheLock_acquire l (snd (CacheLock_acquire l c))))))
           = True
       \<and> CacheLock_locked l
           (snd (CacheLock_acquire l
                (CacheLock_release l (snd (CacheLock_acquire l (snd (CacheLock_acquire l c)))))))"
proof -
  let ?k = "lock_key l"
  have free: "\<not> CacheLock_locked l c"
    using assms(1) by (simp add: CacheLock_locked_def cache_get_def)
  have first: "CacheLock_acquire l c = (True, c(?k \<mapsto> 1))"
    using assms free by (simp add: CacheLock_acquire_def cache_add_def)
  have held: "CacheLock_locked l (c(?k \<mapsto> 1))"
    by (simp add: CacheLock_locked_def cache_get_def)
  have second: "CacheLock_acquire l (c(?k \<mapsto> 1)) = (False, c(?k \<mapsto> 1))"
    using held by (simp add: CacheLock_acquire_def)
  have released: "CacheLock_release l (c(?k \<mapsto> 1)) = c"
    using assms(1) by (simp add: CacheLock_release_def cache_delete_def fun_upd_idem)
  show ?thesis
    by (simp add: first second released held)
qed

theorem CacheLock_acquire_release_cycle_witness:
  "(Map.empty :: cache) (lock_key \<lparr>lock_key = ''lock_sync'', timeout = None\<rparr>) = None
   \<and> \<not> expires_at_once (timeout \<lparr>lock_key = ''lock_sync'', timeout = None\<rparr>)
   \<and> fst (CacheLock_acquire \<lparr>lock_key = ''lock_sync'', timeout = None\<rparr> Map.empty) = True
   \<and> CacheLock_locked \<lparr>lock_key = ''lock_sync'', timeout = None\<rparr>
       (snd (CacheLock_acquire \<lparr>lock_key = ''lock_sync'', timeout = None\<rparr> Map.empty))
   \<and> fst (CacheLock_acquire \<lparr>lock_key = ''lock_sync'', timeout = None\<rparr>
       (snd (CacheLock_acquire \<lparr>lock_key = ''lock_sync'', timeout = None\<rparr> Map.empty))) = False
   \<and> \<not> expires_at_once (timeout \<lparr>lock_key = ''lock_sync'', timeout = Some 30\<rparr>)
   \<and> fst (CacheLock_acquire \<lparr>lock_key = ''lock_sync'', timeout = Some 30\<rparr>
       (snd (CacheLock_acquire \<lparr>lock_key = ''lock_sync'', timeout = Some 30\<rparr> Map.empty))) = False"
proof -
  have a: "\<not> expires_at_once (timeout \<lparr>lock_key = ''lock_sync'', timeout = None\<rparr>)"
    by (simp add: expires_at_once_def)
  have b: "\<not> expires_at_once (timeout \<lparr>lock_key = ''lock_sync'', timeout = Some 30\<rparr>)"
    by (simp add: expires_at_once_def)
  show ?thesis
    using a b
          CacheLock_acquire_release_cycle
            [of Map.empty "\<lparr>lock_key = ''lock_sync'', timeout = None\<rparr>"]
          CacheLock_acquire_release_cycle
            [of Map.empty "\<lparr>lock_key = ''lock_sync'', timeout = Some 30\<rparr>"]
    by simp
qed

text \<open>
  C1, as stated, fails for a lock built with timeout 0: its key is absent and the first
  \<^verbatim>\<open>acquire()\<close> returns true, but \<^verbatim>\<open>cache.add\<close> with timeout 0 keeps nothing, so
  the lock is not held and the second \<^verbatim>\<open>acquire()\<close> returns true as well.
\<close>

theorem CacheLock_zero_timeout_never_held:
  "(Map.empty :: cache) (lock_key \<lparr>lock_key = ''lock_sync'', timeout = Some 0\<rparr>) = None
   \<and> fst (CacheLock_acquire \<lparr>lock_key = ''lock_sync'', timeout = Some 0\<rparr> Map.empty) = True
   \<and> \<not> CacheLock_locked \<lparr>lock_key = ''lock_sync'', timeout = Some 0\<rparr>
         (snd (CacheLock_acquire \<lparr>lock_key = ''lock_sync'', timeout = Some 0\<rparr> Map.empty))
   \<and> fst (CacheLock_acquire \<lparr>lock_key = ''lock_sync'', timeout = Some 0\<rparr>
       (snd (CacheLock_acquire \<lparr>lock_key = ''lock_sync'', timeout = Some 0\<rparr> Map.empty))) = True
   \<and> fst (CacheLock_acquire \<lparr>lock_key = ''lock_sync'', timeout = Some 0\<rparr>
       (snd (CacheLock_acquire \<lparr>lock_key = ''lock_sync'', timeout = Some 0\<rparr> Map.empty)))
       \<noteq> False"
  by (simp add: CacheLock_acquire_def CacheLock_locked_def cache_add_def cache_get_def
                expires_at_once_def)


section \<open>Properties of CacheSemaphore\<close>

lemma CacheSemaphore_value_present:
  "c (cache_key sem) = Some v \<Longrightarrow> CacheSemaphore_value sem c = v"
  by (simp add: CacheSemaphore_value_def cache_get_def)

lemma CacheSemaphore_value_absent:
  "c (cache_key sem) = None \<Longrightarrow> CacheSemaphore_value sem c = 0"
  by (simp add: CacheSemaphore_value_def cache_get_def)

lemma CacheSemaphore_value_update:
  "CacheSemaphore_value sem (c(cache_key sem \<mapsto> v)) = v"
  by (simp add: CacheSemaphore_value_def cache_get_def)

lemma CacheSemaphore_acquire_refused:
  assumes "CacheSemaphore_value sem c < 1 \<or> CacheSemaphore_value sem c < units"
  shows "CacheSemaphore_acquire sem units c
           = (Inl (ValueError ''Semaphore cannot be acquired''), c)"
  using assms by (simp add: CacheSemaphore_acquire_def Let_def)

lemma CacheSemaphore_acquire_granted:
  assumes "\<not> (CacheSemaphore_value sem c < 1 \<or> CacheSemaphore_value sem c < units)"
  shows "CacheSemaphore_acquire sem units c
           = (Inr True, c(cache_key sem \<mapsto> CacheSemaphore_value sem c - units))"
proof (cases "c (cache_key sem)")
  case None
  then have "CacheSemaphore_value sem c = 0"
    by (rule CacheSemaphore_value_absent)
  with assms show ?thesis by simp
next
  case (Some v)
  then have "CacheSemaphore_value sem c = v"
    by (rule CacheSemaphore_value_present)
  with assms Some show ?thesis
    by (simp add: CacheSemaphore_acquire_def Let_def cache_decr_def cache_incr_def)
qed

text \<open>
  C2.  \<^verbatim>\<open>acquire(units)\<close> raises \<^verbatim>\<open>ValueError('Semaphore cannot be acquired')\<close>
  exactly when the current value is below 1 or below \<^verbatim>\<open>units\<close>; it raises nothing
  else; when it raises the cache is unchanged; otherwise it returns true and the
  counter is the old value minus \<^verbatim>\<open>units\<close>.
\<close>

theorem CacheSemaphore_acquire_spec:
  "(fst (CacheSemaphore_acquire sem units c) = Inl (ValueError ''Semaphore cannot be acquired'')
      \<longleftrightarrow> (CacheSemaphore_value sem c < 1 \<or> CacheSemaphore_value sem c < units))
   \<and> (isl (fst (CacheSemaphore_acquire sem units c))
      \<longleftrightarrow> (CacheSemaphore_value sem c < 1 \<or> CacheSemaphore_value sem c < units))
   \<and> (isl (fst (CacheSemaphore_acquire sem units c))
      \<longrightarrow> snd (CacheSemaphore_acquire sem units c) = c)
   \<and> (\<not> isl (fst (CacheSemaphore_acquire sem units c))
      \<longrightarrow> fst (CacheSemaphore_acquire sem units c) = Inr True
        \<and> snd (CacheSemaphore_acquire sem units c)
            = c(cache_key sem \<mapsto> CacheSemaphore_value sem c - units)
        \<and> CacheSemaphore_value sem (snd (CacheSemaphore_acquire sem units c))
            = CacheSemaphore_value sem c - units)"
proof (cases "CacheSemaphore_value sem c < 1 \<or> CacheSemaphore_value sem c < units")
  case True
  then show ?thesis
    by (simp add: CacheSemaphore_acquire_refused)
next
  case False
  then show ?thesis
    by (simp add: CacheSemaphore_acquire_granted CacheSemaphore_value_update)
qed

theorem CacheSemaphore_acquire_spec_witness:
  "isl (fst (CacheSemaphore_acquire \<lparr>cache_key = ''sem''\<rparr> 4 [''sem'' \<mapsto> 3]))
   \<and> snd (CacheSemaphore_acquire \<lparr>cache_key = ''sem''\<rparr> 4 [''sem'' \<mapsto> 3]) = [''sem'' \<mapsto> 3]
   \<and> \<not> isl (fst (CacheSemaphore_acquire \<lparr>cache_key = ''sem''\<rparr> 2 [''sem'' \<mapsto> 3]))
   \<and> fst (CacheSemaphore_acquire \<lparr>cache_key = ''sem''\<rparr> 2 [''sem'' \<mapsto> 3]) = Inr True
   \<and> CacheSemaphore_value \<lparr>cache_key = ''sem''\<rparr>
        (snd (CacheSemaphore_acquire \<lparr>cache_key = ''sem''\<rparr> 2 [''sem'' \<mapsto> 3])) = 1"
  using CacheSemaphore_acquire_spec [of "\<lparr>cache_key = ''sem''\<rparr>" 4 "[''sem'' \<mapsto> 3]"]
        CacheSemaphore_acquire_spec [of "\<lparr>cache_key = ''sem''\<rparr>" 2 "[''sem'' \<mapsto> 3]"]
  by (simp add: CacheSemaphore_value_def cache_get_def)

text \<open>
  C5, as the code has it.  \<^verbatim>\<open>acquire_all()\<close> passes the value it read to
  \<^verbatim>\<open>acquire\<close>, whose guard refuses a semaphore whose value is below 1.  So with a
  value of at least 1 it returns that value and leaves the counter at 0, and with a
  value below 1 (an empty semaphore, or a missing key) it raises
  \<^verbatim>\<open>ValueError('Semaphore cannot be acquired')\<close> and leaves the cache unchanged.
\<close>

theorem CacheSemaphore_acquire_all_spec:
  "(1 \<le> CacheSemaphore_value sem c \<longrightarrow>
      CacheSemaphore_acquire_all sem c
        = (Inr (CacheSemaphore_value sem c), c(cache_key sem \<mapsto> 0)))
   \<and> (CacheSemaphore_value sem c < 1 \<longrightarrow>
      CacheSemaphore_acquire_all sem c
        = (Inl (ValueError ''Semaphore cannot be acquired''), c))"
proof (cases "CacheSemaphore_value sem c < 1")
  case True
  then show ?thesis
    by (simp add: CacheSemaphore_acquire_all_def Let_def CacheSemaphore_acquire_refused)
next
  case False
  then have "\<not> (CacheSemaphore_value sem c < 1
                \<or> CacheSemaphore_value sem c < CacheSemaphore_value sem c)"
    by simp
  then have "CacheSemaphore_acquire sem (CacheSemaphore_value sem c) c
               = (Inr True, c(cache_key sem \<mapsto> 0))"
    by (simp add: CacheSemaphore_acquire_granted)
  with False show ?thesis
    by (simp add: CacheSemaphore_acquire_all_def Let_def)
qed

theorem CacheSemaphore_acquire_all_spec_witness:
  "1 \<le> CacheSemaphore_value \<lparr>cache_key = ''sem''\<rparr> [''sem'' \<mapsto> 3]
   \<and> CacheSemaphore_value \<lparr>cache_key = ''sem''\<rparr> Map.empty < 1
   \<and> CacheSemaphore_acquire_all \<lparr>cache_key = ''sem''\<rparr> [''sem'' \<mapsto> 3]
     = (Inr 3, [''sem'' \<mapsto> 0])
   \<and> CacheSemaphore_acquire_all \<lparr>cache_key = ''sem''\<rparr> Map.empty
     = (Inl (ValueError ''Semaphore cannot be acquired''), Map.empty)"
  using CacheSemaphore_acquire_all_spec [of "\<lparr>cache_key = ''sem''\<rparr>" "[''sem'' \<mapsto> 3]"]
        CacheSemaphore_acquire_all_spec [of "\<lparr>cache_key = ''sem''\<rparr>" Map.empty]
  by (simp add: CacheSemaphore_value_def cache_get_def)

text \<open>
  C5, as stated, fails on an empty semaphore: with the counter at 0,
  \<^verbatim>\<open>acquire_all()\<close> raises instead of returning 0.
\<close>

theorem CacheSemaphore_acquire_all_empty_raises:
  "CacheSemaphore_value \<lparr>cache_key = ''sem''\<rparr> [''sem'' \<mapsto> 0] = 0
   \<and> fst (CacheSemaphore_acquire_all \<lparr>cache_key = ''sem''\<rparr> [''sem'' \<mapsto> 0])
       = Inl (ValueError ''Semaphore cannot be acquired'')
   \<and> fst (CacheSemaphore_acquire_all \<lparr>cache_key = ''sem''\<rparr> [''sem'' \<mapsto> 0]) \<noteq> Inr 0"
  by (simp add: CacheSemaphore_acquire_all_def CacheSemaphore_acquire_def
                CacheSemaphore_value_def cache_get_def Let_def)


text \<open>
  C6, at the input where the code departs from it.  The constructor's test
  \<^verbatim>\<open>not cache.get(key, False)\<close> is true of a missing key and also of a key whose
  counter is 0, so constructing a semaphore over a live counter that has been fully
  acquired writes the starting value over it.  A counter that is present and not 0 is
  left alone (\<open>CacheSemaphore_init_keeps_nonzero\<close> below).
\<close>

theorem CacheSemaphore_init_overwrites_zero:
  "snd (CacheSemaphore_init ''sem'' 5 [''sem'' \<mapsto> 0]) ''sem'' = Some 5
   \<and> snd (CacheBoundedSemaphore_init ''sem'' 5 (Some 5) [''sem'' \<mapsto> 0]) ''sem'' = Some 5"
  by (simp add: CacheBoundedSemaphore_init_def CacheSemaphore_init_def cache_get_def
                cache_set_def expires_at_once_def)

lemma CacheSemaphore_init_keeps_nonzero:
  assumes "c key = Some n" and "n \<noteq> 0"
  shows "snd (CacheSemaphore_init key v c) = c"
    and "snd (CacheBoundedSemaphore_init key v mx c) = c"
  using assms
  by (simp_all add: CacheBoundedSemaphore_init_def CacheSemaphore_init_def cache_get_def
                    Let_def)

lemma CacheSemaphore_init_writes_absent:
  assumes "c key = None"
  shows "snd (CacheSemaphore_init key v c) = c(key \<mapsto> v)"
  using assms
  by (simp add: CacheSemaphore_init_def cache_get_def cache_set_def expires_at_once_def)

text \<open>
  C9.  \<^verbatim>\<open>__del__\<close> of a semaphore, bounded or not, calls \<^verbatim>\<open>delete()\<close>, which removes
  the key from the cache whatever the counter is.  The key is all the handles share, so
  every other handle on the same key then reads the value 0.
\<close>

theorem CacheSemaphore_del_removes_key:
  "CacheSemaphore_del sem c = c(cache_key sem := None)
   \<and> CacheBoundedSemaphore_del bsem c = c(cache_key bsem := None)
   \<and> (cache_key other = cache_key sem \<longrightarrow>
        CacheSemaphore_value other (CacheSemaphore_del sem c) = 0)
   \<and> (cache_key other = cache_key bsem \<longrightarrow>
        CacheSemaphore_value other (CacheBoundedSemaphore_del bsem c) = 0)"
  by (simp add: CacheBoundedSemaphore_del_def CacheSemaphore_del_def
                CacheSemaphore_delete_def cache_delete_def CacheSemaphore_value_def
                cache_get_def)

theorem CacheSemaphore_del_removes_key_witness:
  "CacheSemaphore_del \<lparr>cache_key = ''sem''\<rparr> [''sem'' \<mapsto> 3] ''sem'' = None
   \<and> CacheBoundedSemaphore_del \<lparr>cache_key = ''sem'', max_value = 5\<rparr> [''sem'' \<mapsto> 3] ''sem''
       = None
   \<and> cache_key \<lparr>cache_key = ''sem'', max_value = 5\<rparr> = cache_key \<lparr>cache_key = ''sem''\<rparr>
   \<and> CacheSemaphore_value \<lparr>cache_key = ''sem'', max_value = 5\<rparr>
       (CacheSemaphore_del \<lparr>cache_key = ''sem''\<rparr> [''sem'' \<mapsto> 3]) = 0"
  using CacheSemaphore_del_removes_key
          [of "\<lparr>cache_key = ''sem''\<rparr>" "[''sem'' \<mapsto> 3]"
              "\<lparr>cache_key = ''sem'', max_value = 5\<rparr>"
              "\<lparr>cache_key = ''sem'', max_value = 5\<rparr>"]
  by (simp add: CacheSemaphore_value_def cache_get_def)


section \<open>Properties of CacheBoundedSemaphore\<close>

lemma CacheBoundedSemaphore_release_present:
  assumes "c (cache_key sem) = Some v"
  shows "CacheBoundedSemaphore_release sem units c
           = (Inr (), c(cache_key sem \<mapsto>
                 v + (if units > max_value sem - v then max_value sem - v else units)))"
  using assms
  by (simp add: CacheBoundedSemaphore_release_def CacheSemaphore_value_def cache_get_def
                cache_incr_def Let_def)

lemma CacheBoundedSemaphore_release_absent:
  assumes "c (cache_key sem) = None"
  shows "CacheBoundedSemaphore_release sem units c = (Inl (ValueError ''Key not found''), c)"
  using assms
  by (simp add: CacheBoundedSemaphore_release_def cache_incr_def Let_def)

text \<open>
  C3.  While the counter of a bounded semaphore lies between 0 and \<^verbatim>\<open>max\<close>, it still
  does after \<^verbatim>\<open>acquire(units)\<close>, after \<^verbatim>\<open>release(units)\<close> (both with
  \<^verbatim>\<open>units\<close> at least 1) and after \<^verbatim>\<open>release_all()\<close>, whether the call returns or
  raises.  On a counter that is present, \<^verbatim>\<open>release(units)\<close> adds \<^verbatim>\<open>units\<close> clamped
  to the headroom, so the new value is the smaller of the old value plus \<^verbatim>\<open>units\<close>
  and \<^verbatim>\<open>max\<close>, and \<^verbatim>\<open>release_all()\<close> leaves exactly \<^verbatim>\<open>max\<close>.
\<close>

theorem CacheBoundedSemaphore_bounds_preserved:
  assumes "0 \<le> CacheSemaphore_value sem c"
      and "CacheSemaphore_value sem c \<le> max_value sem"
      and "1 \<le> units"
  shows "(0 \<le> CacheSemaphore_value sem (snd (CacheSemaphore_acquire sem units c))
          \<and> CacheSemaphore_value sem (snd (CacheSemaphore_acquire sem units c))
              \<le> max_value sem)
       \<and> (0 \<le> CacheSemaphore_value sem (snd (CacheBoundedSemaphore_release sem units c))
          \<and> CacheSemaphore_value sem (snd (CacheBoundedSemaphore_release sem units c))
              \<le> max_value sem)
       \<and> (0 \<le> CacheSemaphore_value sem (snd (CacheBoundedSemaphore_release_all sem c))
          \<and> CacheSemaphore_value sem (snd (CacheBoundedSemaphore_release_all sem c))
              \<le> max_value sem)
       \<and> (c (cache_key sem) \<noteq> None \<longrightarrow>
            CacheSemaphore_value sem (snd (CacheBoundedSemaphore_release sem units c))
              = min (CacheSemaphore_value sem c + units) (max_value sem))
       \<and> (c (cache_key sem) \<noteq> None \<longrightarrow>
            CacheSemaphore_value sem (snd (CacheBoundedSemaphore_release_all sem c))
              = max_value sem)"
proof -
  let ?V = "CacheSemaphore_value sem"
  have acq: "0 \<le> ?V (snd (CacheSemaphore_acquire sem units c))
             \<and> ?V (snd (CacheSemaphore_acquire sem units c)) \<le> max_value sem"
  proof (cases "?V c < 1 \<or> ?V c < units")
    case True
    then show ?thesis
      using assms by (simp add: CacheSemaphore_acquire_refused)
  next
    case False
    then show ?thesis
      using assms by (simp add: CacheSemaphore_acquire_granted CacheSemaphore_value_update)
  qed
  have rel: "0 \<le> ?V (snd (CacheBoundedSemaphore_release sem units c))
             \<and> ?V (snd (CacheBoundedSemaphore_release sem units c)) \<le> max_value sem
             \<and> (c (cache_key sem) \<noteq> None \<longrightarrow>
                  ?V (snd (CacheBoundedSemaphore_release sem units c))
                    = min (?V c + units) (max_value sem))"
  proof (cases "c (cache_key sem)")
    case None
    then show ?thesis
      using assms by (simp add: CacheBoundedSemaphore_release_absent)
  next
    case (Some v)
    then have "?V c = v"
      by (rule CacheSemaphore_value_present)
    with Some assms show ?thesis
      by (simp add: CacheBoundedSemaphore_release_present CacheSemaphore_value_update)
  qed
  have rel_all: "0 \<le> ?V (snd (CacheBoundedSemaphore_release_all sem c))
             \<and> ?V (snd (CacheBoundedSemaphore_release_all sem c)) \<le> max_value sem
             \<and> (c (cache_key sem) \<noteq> None \<longrightarrow>
                  ?V (snd (CacheBoundedSemaphore_release_all sem c)) = max_value sem)"
  proof (cases "c (cache_key sem)")
    case None
    then show ?thesis
      using assms
      by (simp add: CacheBoundedSemaphore_release_all_def CacheBoundedSemaphore_release_absent)
  next
    case (Some v)
    then have "?V c = v"
      by (rule CacheSemaphore_value_present)
    with Some assms show ?thesis
      by (simp add: CacheBoundedSemaphore_release_all_def
                    CacheBoundedSemaphore_release_present CacheSemaphore_value_update)
  qed
  from acq rel rel_all show ?thesis by simp
qed

text \<open>
  The witness is the example of the specification: a bounded semaphore with
  \<^verbatim>\<open>max = 5\<close> whose counter is 0; \<^verbatim>\<open>release(10)\<close> leaves exactly 5.
\<close>

theorem CacheBoundedSemaphore_bounds_preserved_witness:
  "0 \<le> CacheSemaphore_value \<lparr>cache_key = ''sem'', max_value = 5\<rparr> [''sem'' \<mapsto> 0]
   \<and> CacheSemaphore_value \<lparr>cache_key = ''sem'', max_value = 5\<rparr> [''sem'' \<mapsto> 0]
       \<le> max_value \<lparr>cache_key = ''sem'', max_value = 5\<rparr>
   \<and> (1::int) \<le> 10
   \<and> [''sem'' \<mapsto> (0::int)] (cache_key \<lparr>cache_key = ''sem'', max_value = 5\<rparr>) \<noteq> None
   \<and> CacheSemaphore_value \<lparr>cache_key = ''sem'', max_value = 5\<rparr>
       (snd (CacheBoundedSemaphore_release \<lparr>cache_key = ''sem'', max_value = 5\<rparr> 10
               [''sem'' \<mapsto> 0])) = 5
   \<and> CacheSemaphore_value \<lparr>cache_key = ''sem'', max_value = 5\<rparr>
       (snd (CacheBoundedSemaphore_release_all \<lparr>cache_key = ''sem'', max_value = 5\<rparr>
               [''sem'' \<mapsto> 0])) = 5"
proof -
  have v0: "CacheSemaphore_value \<lparr>cache_key = ''sem'', max_value = 5\<rparr> [''sem'' \<mapsto> 0] = 0"
    by (simp add: CacheSemaphore_value_def cache_get_def)
  show ?thesis
    using CacheBoundedSemaphore_bounds_preserved
            [of "\<lparr>cache_key = ''sem'', max_value = 5\<rparr>" "[''sem'' \<mapsto> 0]" 10]
    by (simp add: v0)
qed

text \<open>
  C8, as the code has it.  \<^verbatim>\<open>full()\<close> reads the counter with \<^verbatim>\<open>max\<close> as the
  default, so it is true exactly when the key is missing or the value is at least
  \<^verbatim>\<open>max\<close>.  For a key that is present this is \<^verbatim>\<open>value() >= max\<close>.
\<close>

theorem CacheBoundedSemaphore_full_spec:
  "(CacheBoundedSemaphore_full sem c
      \<longleftrightarrow> (c (cache_key sem) = None \<or> CacheSemaphore_value sem c \<ge> max_value sem))
   \<and> (c (cache_key sem) \<noteq> None \<longrightarrow>
        (CacheBoundedSemaphore_full sem c \<longleftrightarrow> CacheSemaphore_value sem c \<ge> max_value sem))
   \<and> (c (cache_key sem) = None \<longrightarrow>
        CacheBoundedSemaphore_full sem c \<and> CacheSemaphore_value sem c = 0)"
  by (cases "c (cache_key sem)")
     (simp_all add: CacheBoundedSemaphore_full_def CacheSemaphore_value_def cache_get_def)

theorem CacheBoundedSemaphore_full_spec_witness:
  "[''sem'' \<mapsto> (3::int)] (cache_key \<lparr>cache_key = ''sem'', max_value = 5\<rparr>) \<noteq> None
   \<and> \<not> CacheBoundedSemaphore_full \<lparr>cache_key = ''sem'', max_value = 5\<rparr> [''sem'' \<mapsto> 3]
   \<and> (Map.empty :: cache) (cache_key \<lparr>cache_key = ''sem'', max_value = 5\<rparr>) = None
   \<and> CacheBoundedSemaphore_full \<lparr>cache_key = ''sem'', max_value = 5\<rparr> Map.empty"
  using CacheBoundedSemaphore_full_spec
          [of "\<lparr>cache_key = ''sem'', max_value = 5\<rparr>" "[''sem'' \<mapsto> 3]"]
        CacheBoundedSemaphore_full_spec
          [of "\<lparr>cache_key = ''sem'', max_value = 5\<rparr>" Map.empty]
  by (simp add: CacheSemaphore_value_def cache_get_def)

text \<open>
  C8, as stated, fails for a missing key: \<^verbatim>\<open>full()\<close> is true while \<^verbatim>\<open>value()\<close> is
  0, below \<^verbatim>\<open>max = 5\<close>.
\<close>

theorem CacheBoundedSemaphore_full_absent_key:
  "CacheBoundedSemaphore_full \<lparr>cache_key = ''sem'', max_value = 5\<rparr> Map.empty
   \<and> CacheSemaphore_value \<lparr>cache_key = ''sem'', max_value = 5\<rparr> Map.empty = 0
   \<and> \<not> (CacheSemaphore_value \<lparr>cache_key = ''sem'', max_value = 5\<rparr> Map.empty
          \<ge> max_value \<lparr>cache_key = ''sem'', max_value = 5\<rparr>)"
  by (simp add: CacheBoundedSemaphore_full_def CacheSemaphore_value_def cache_get_def)

text \<open>
  C10.  With an initial value above \<^verbatim>\<open>max_value\<close> the constructor raises
  \<^verbatim>\<open>ValueError\<close>, and the cache it leaves is the one the inherited initializer
  produced: where the key was missing, it now holds the initial value, so the failed
  construction has changed the cache.
\<close>

theorem CacheBoundedSemaphore_init_raises_after_write:
  assumes "v > m"
  shows "fst (CacheBoundedSemaphore_init key v (Some m) c)
           = Inl (ValueError ''Initial value cannot be greater than max value'')
       \<and> snd (CacheBoundedSemaphore_init key v (Some m) c)
           = snd (CacheSemaphore_init key v c)
       \<and> (c key = None \<longrightarrow>
            snd (CacheBoundedSemaphore_init key v (Some m) c) = c(key \<mapsto> v)
            \<and> snd (CacheBoundedSemaphore_init key v (Some m) c) \<noteq> c)"
proof -
  have res: "CacheBoundedSemaphore_init key v (Some m) c
               = (Inl (ValueError ''Initial value cannot be greater than max value''),
                  snd (CacheSemaphore_init key v c))"
    using assms
    by (simp add: CacheBoundedSemaphore_init_def Let_def split: prod.splits)
  have changed: "c(key \<mapsto> v) \<noteq> c" if "c key = None"
  proof
    assume "c(key \<mapsto> v) = c"
    then have "(c(key \<mapsto> v)) key = c key" by simp
    with that show False by simp
  qed
  show ?thesis
    using changed by (simp add: res CacheSemaphore_init_writes_absent)
qed

theorem CacheBoundedSemaphore_init_raises_after_write_witness:
  "(6::int) > 5
   \<and> fst (CacheBoundedSemaphore_init ''sem'' 6 (Some 5) Map.empty)
       = Inl (ValueError ''Initial value cannot be greater than max value'')
   \<and> (Map.empty :: cache) ''sem'' = None
   \<and> snd (CacheBoundedSemaphore_init ''sem'' 6 (Some 5) Map.empty) = [''sem'' \<mapsto> 6]"
  using CacheBoundedSemaphore_init_raises_after_write [of 5 6 "''sem''" Map.empty]
  by (simp add: CacheSemaphore_init_writes_absent)


section \<open>Properties of LoggedSingleTask\<close>

lemma lower_Sync: "lower ''Sync'' = ''sync''" by code_simp

lemma LoggedSingleTask_init_Sync:
  "LoggedSingleTask_init ''Sync'' work
     = \<lparr>TAG = ''Sync'', run = work, lock = \<lparr>lock_key = ''lock_sync'', timeout = None\<rparr>\<rparr>"
  by (simp add: LoggedSingleTask_init_def CacheLock_init_def lower_Sync)

lemma store_emit: "store (emit e w) = store w"
  by (simp add: emit_def)

lemma events_emit: "events (emit e w) = events w @ [e]"
  by (simp add: emit_def)

lemma lock_acquire_locked:
  assumes "CacheLock_locked l (store w)"
  shows "lock_acquire l w = (False, emit (LockAcquire False) w)"
  using assms by (simp add: lock_acquire_def CacheLock_acquire_def emit_def)

lemma lock_acquire_free:
  assumes "\<not> CacheLock_locked l (store w)"
  shows "lock_acquire l w
           = (True, (emit (LockAcquire True) w)\<lparr>store := snd (CacheLock_acquire l (store w))\<rparr>)"
  using assms by (simp add: lock_acquire_def CacheLock_acquire_def)

lemma CacheLock_release_frees: "\<not> CacheLock_locked l (CacheLock_release l c)"
  by (simp add: CacheLock_locked_def CacheLock_release_def cache_delete_def cache_get_def)

text \<open>
  C4, as the code has it.  When the lock is already held, \<^verbatim>\<open>__call__\<close> returns
  \<^verbatim>\<open>False\<close> (the value a run whose work returns \<^verbatim>\<open>False\<close> also yields), the
  wrapped work is not executed, the only call on the lock is the refused acquire, and
  the cache is unchanged, so the lock is still held when \<^verbatim>\<open>__call__\<close> returns.
\<close>

theorem LoggedSingleTask_call_skips_when_locked:
  assumes "CacheLock_locked (lock t) (store w)"
  shows "fst (LoggedSingleTask_call t w) = Inr (PBool False)
       \<and> store (snd (LoggedSingleTask_call t w)) = store w
       \<and> events (snd (LoggedSingleTask_call t w)) = events w @ [LockAcquire False]
       \<and> CacheLock_locked (lock t) (store (snd (LoggedSingleTask_call t w)))"
  using assms
  by (simp add: LoggedSingleTask_call_def lock_acquire_locked store_emit events_emit)

text \<open>
  C7, as the code has it.  When the lock is free at invocation and the wrapped work
  returns a value, the instance succeeds with that value and \<^verbatim>\<open>release\<close> is called
  exactly twice: by \<^verbatim>\<open>__call__\<close> right after the work returns and by
  \<^verbatim>\<open>on_success\<close>, both before the generic success hook.  The lock is free at the end.
\<close>

theorem LoggedSingleTask_success_releases_twice:
  assumes "\<not> CacheLock_locked (lock t) (store w)"
      and "fst (run t (snd (CacheLock_acquire (lock t) (store w)))) = Inr r"
  shows "fst (trace_task t task_id w) = SUCCESS r
       \<and> events (snd (trace_task t task_id w))
           = events w @ [LockAcquire True, LogStarted (TAG t), RunCalled, LockRelease,
                         LockRelease, LogCompleted (TAG t) task_id r, TaskOnSuccess]
       \<and> count_list (events (snd (trace_task t task_id w))) LockRelease
           = count_list (events w) LockRelease + 2
       \<and> \<not> CacheLock_locked (lock t) (store (snd (trace_task t task_id w)))"
proof -
  obtain c2 where work: "run t (snd (CacheLock_acquire (lock t) (store w))) = (Inr r, c2)"
    using assms(2) by (cases "run t (snd (CacheLock_acquire (lock t) (store w)))") simp
  let ?w1 = "(emit (LockAcquire True) w)\<lparr>store := snd (CacheLock_acquire (lock t) (store w))\<rparr>"
  let ?w2 = "(emit RunCalled (emit (LogStarted (TAG t)) ?w1))\<lparr>store := c2\<rparr>"
  have inner: "LoggedTask_call t ?w1 = (Inr r, ?w2)"
    using work by (simp add: LoggedTask_call_def Task_call_def store_emit)
  have call: "LoggedSingleTask_call t w = (Inr r, lock_release (lock t) ?w2)"
    using assms(1) by (simp add: LoggedSingleTask_call_def lock_acquire_free inner)
  have res: "trace_task t task_id w
               = (SUCCESS r,
                  LoggedSingleTask_on_success t r task_id (lock_release (lock t) ?w2))"
    by (simp add: trace_task_def call)
  have ev: "events (LoggedSingleTask_on_success t r task_id (lock_release (lock t) ?w2))
              = events w @ [LockAcquire True, LogStarted (TAG t), RunCalled, LockRelease,
                            LockRelease, LogCompleted (TAG t) task_id r, TaskOnSuccess]"
    by (simp add: LoggedSingleTask_on_success_def LoggedTask_on_success_def
                  Task_on_success_def lock_release_def emit_def)
  have st: "store (LoggedSingleTask_on_success t r task_id (lock_release (lock t) ?w2))
              = CacheLock_release (lock t) (CacheLock_release (lock t) c2)"
    by (simp add: LoggedSingleTask_on_success_def LoggedTask_on_success_def
                  Task_on_success_def lock_release_def emit_def)
  show ?thesis
    by (simp add: res ev st CacheLock_release_frees)
qed


lemmas task_defs =
  trace_task_def LoggedSingleTask_call_def LoggedSingleTask_on_success_def
  LoggedSingleTask_on_failure_def LoggedTask_call_def LoggedTask_on_success_def
  LoggedTask_on_failure_def Task_call_def Task_on_success_def Task_on_failure_def
  lock_acquire_def lock_release_def emit_def returning_def
  CacheLock_acquire_def CacheLock_release_def CacheLock_locked_def
  cache_get_def cache_add_def cache_delete_def expires_at_once_def

theorem LoggedSingleTask_call_skips_when_locked_witness:
  "CacheLock_locked (lock (LoggedSingleTask_init ''Sync'' (returning (PInt 7))))
     (store \<lparr>store = [''lock_sync'' \<mapsto> 1], events = []\<rparr>)
   \<and> fst (LoggedSingleTask_call (LoggedSingleTask_init ''Sync'' (returning (PInt 7)))
            \<lparr>store = [''lock_sync'' \<mapsto> 1], events = []\<rparr>) = Inr (PBool False)
   \<and> store (snd (LoggedSingleTask_call (LoggedSingleTask_init ''Sync'' (returning (PInt 7)))
            \<lparr>store = [''lock_sync'' \<mapsto> 1], events = []\<rparr>)) = [''lock_sync'' \<mapsto> 1]
   \<and> events (snd (LoggedSingleTask_call (LoggedSingleTask_init ''Sync'' (returning (PInt 7)))
            \<lparr>store = [''lock_sync'' \<mapsto> 1], events = []\<rparr>)) = [LockAcquire False]"
proof -
  have held: "CacheLock_locked (lock (LoggedSingleTask_init ''Sync'' (returning (PInt 7))))
                (store \<lparr>store = [''lock_sync'' \<mapsto> 1], events = []\<rparr>)"
    by (simp add: LoggedSingleTask_init_Sync CacheLock_locked_def cache_get_def)
  show ?thesis
    using held LoggedSingleTask_call_skips_when_locked [OF held] by simp
qed

text \<open>
  C4, as stated, fails twice over.  The skipped call returns normally, so the worker
  reports success with the value \<^verbatim>\<open>False\<close> and calls \<^verbatim>\<open>on_success\<close>, which
  releases the lock although this instance never acquired it; and the value returned
  is the one a successful run of work returning \<^verbatim>\<open>False\<close> returns.
\<close>

theorem LoggedSingleTask_skip_then_on_success_releases:
  "CacheLock_locked (lock (LoggedSingleTask_init ''Sync'' (returning (PInt 7))))
     [''lock_sync'' \<mapsto> 1]
   \<and> fst (trace_task (LoggedSingleTask_init ''Sync'' (returning (PInt 7))) ''id1''
            \<lparr>store = [''lock_sync'' \<mapsto> 1], events = []\<rparr>) = SUCCESS (PBool False)
   \<and> events (snd (trace_task (LoggedSingleTask_init ''Sync'' (returning (PInt 7))) ''id1''
            \<lparr>store = [''lock_sync'' \<mapsto> 1], events = []\<rparr>))
       = [LockAcquire False, LockRelease, LogCompleted ''Sync'' ''id1'' (PBool False),
          TaskOnSuccess]
   \<and> \<not> CacheLock_locked (lock (LoggedSingleTask_init ''Sync'' (returning (PInt 7))))
         (store (snd (trace_task (LoggedSingleTask_init ''Sync'' (returning (PInt 7))) ''id1''
            \<lparr>store = [''lock_sync'' \<mapsto> 1], events = []\<rparr>)))
   \<and> fst (LoggedSingleTask_call (LoggedSingleTask_init ''Sync'' (returning (PInt 7)))
            \<lparr>store = [''lock_sync'' \<mapsto> 1], events = []\<rparr>)
       = fst (LoggedSingleTask_call (LoggedSingleTask_init ''Sync'' (returning (PBool False)))
            \<lparr>store = Map.empty, events = []\<rparr>)"
  by (simp add: LoggedSingleTask_init_Sync task_defs)

theorem LoggedSingleTask_success_releases_twice_witness:
  "\<not> CacheLock_locked (lock (LoggedSingleTask_init ''Sync'' (returning (PInt 7))))
       (store \<lparr>store = Map.empty, events = []\<rparr>)
   \<and> fst (run (LoggedSingleTask_init ''Sync'' (returning (PInt 7)))
            (snd (CacheLock_acquire (lock (LoggedSingleTask_init ''Sync'' (returning (PInt 7))))
                   (store \<lparr>store = Map.empty, events = []\<rparr>)))) = Inr (PInt 7)
   \<and> fst (trace_task (LoggedSingleTask_init ''Sync'' (returning (PInt 7))) ''id1''
            \<lparr>store = Map.empty, events = []\<rparr>) = SUCCESS (PInt 7)
   \<and> events (snd (trace_task (LoggedSingleTask_init ''Sync'' (returning (PInt 7))) ''id1''
            \<lparr>store = Map.empty, events = []\<rparr>))
       = [LockAcquire True, LogStarted ''Sync'', RunCalled, LockRelease, LockRelease,
          LogCompleted ''Sync'' ''id1'' (PInt 7), TaskOnSuccess]"
proof -
  have free: "\<not> CacheLock_locked (lock (LoggedSingleTask_init ''Sync'' (returning (PInt 7))))
                  (store \<lparr>store = Map.empty, events = []\<rparr>)"
    by (simp add: LoggedSingleTask_init_Sync CacheLock_locked_def cache_get_def)
  have work: "fst (run (LoggedSingleTask_init ''Sync'' (returning (PInt 7)))
            (snd (CacheLock_acquire (lock (LoggedSingleTask_init ''Sync'' (returning (PInt 7))))
                   (store \<lparr>store = Map.empty, events = []\<rparr>)))) = Inr (PInt 7)"
    by (simp add: LoggedSingleTask_init_Sync returning_def)
  show ?thesis
    using free work LoggedSingleTask_success_releases_twice [OF free work, of "''id1''"]
    by (simp add: LoggedSingleTask_init_Sync)
qed

text \<open>
  C7, as stated, fails: on a successful run \<^verbatim>\<open>release\<close> is called twice, not once.
\<close>

theorem LoggedSingleTask_success_release_count:
  "fst (CacheLock_acquire (lock (LoggedSingleTask_init ''Sync'' (returning (PInt 7))))
          Map.empty) = True
   \<and> fst (trace_task (LoggedSingleTask_init ''Sync'' (returning (PInt 7))) ''id1''
            \<lparr>store = Map.empty, events = []\<rparr>) = SUCCESS (PInt 7)
   \<and> count_list (events (snd (trace_task (LoggedSingleTask_init ''Sync'' (returning (PInt 7)))
            ''id1'' \<lparr>store = Map.empty, events = []\<rparr>))) LockRelease = 2
   \<and> count_list (events (snd (trace_task (LoggedSingleTask_init ''Sync'' (returning (PInt 7)))
            ''id1'' \<lparr>store = Map.empty, events = []\<rparr>))) LockRelease \<noteq> 1"
  by (simp add: LoggedSingleTask_init_Sync task_defs)

end
